theory Spec2Isabelle
  imports Complex_Main "HOL-Library.Word"
begin

section \<open>The transaction sender of near-api-js\<close>

text \<open>
  A shallow embedding of \<^verbatim>\<open>packages/near-api-js/src/transaction_sender.ts\<close>: the class
  \<^verbatim>\<open>TransactionSender\<close> with its methods \<^verbatim>\<open>findAccessKey\<close>, \<^verbatim>\<open>signTransaction\<close>,
  \<^verbatim>\<open>signAndSendTransaction\<close>, \<^verbatim>\<open>printLogsAndFailures\<close> and \<^verbatim>\<open>printLogs\<close>.

  Conventions of the embedding.
  \<^item> A thrown error (a rejected promise) is \<open>Inl e\<close>, a returned value is \<open>Inr v\<close>.
  \<^item> JavaScript's \<^verbatim>\<open>null\<close> result of a function that otherwise returns an object is
    \<open>None\<close>.
  \<^item> The only mutable field of the class, \<^verbatim>\<open>accessKeyByPublicKeyCache\<close>, lives in the
    state that every function takes and returns.
  \<^item> Every \<^verbatim>\<open>await\<close> of a call to a collaborator (signer, provider, timer) is a point
    where the event loop runs other callers of the sender: the call is a function of
    the cache and of the outside world that returns both, possibly changed, with its
    result.
  \<^item> The state also records, in \<open>submitted\<close>, the transactions handed to
    \<^verbatim>\<open>provider.sendTransaction\<close>, oldest first. A collaborator cannot change that
    record: it is how the number of submissions is observed.
  \<^item> The console belongs to the outside world: \<^verbatim>\<open>console.log\<close> and \<^verbatim>\<open>console.warn\<close>
    are functions on it, and \<^verbatim>\<open>printLogsAndFailures\<close> applies them line by line. The
    warnings of \<^verbatim>\<open>logWarning\<close>, an imported helper, are left out: they have no
    influence on the control flow.
  \<^item> A thrown value without a \<^verbatim>\<open>type\<close> property (an \<^verbatim>\<open>Error\<close> of a library, a
    \<^verbatim>\<open>TypeError\<close>) is a record whose \<open>type\<close> is the empty string: the code only
    compares the property with non-empty literals.
\<close>

subsection \<open>Data\<close>

type_synonym bytes = "8 word list"

text \<open>A \<^verbatim>\<open>PublicKey\<close> is identified with its string form \<^verbatim>\<open>publicKey.toString()\<close>,
  the key of the cache.\<close>

type_synonym PublicKey = string

datatype AccessKeyPermission =
    FullAccess
  | FunctionCall string "string list"

text \<open>\<^verbatim>\<open>AccessKeyViewRaw\<close>: the nonce is a JavaScript number, here an integer.\<close>

record AccessKeyViewRaw =
  nonce :: int
  permission :: AccessKeyPermission

text \<open>\<^verbatim>\<open>AccessKeyView\<close>: the nonce is a \<^verbatim>\<open>BN\<close>, an integer of any size.\<close>

record AccessKeyView =
  nonce :: int
  permission :: AccessKeyPermission

type_synonym cache = "string \<rightharpoonup> AccessKeyView"

record ErrorContext =
  transactionHash :: string

text \<open>\<^verbatim>\<open>TypedError\<close> and its subclasses (\<^verbatim>\<open>ServerError\<close>), and every error a collaborator
  throws: the code reads \<^verbatim>\<open>error.type\<close> and writes \<^verbatim>\<open>error.context\<close>.\<close>

record TypedError =
  message :: string
  type :: string
  errContext :: "ErrorContext option"

definition new_TypedError :: "string \<Rightarrow> string \<Rightarrow> TypedError" where
  "new_TypedError msg ty = \<lparr>message = msg, type = ty, errContext = None\<rparr>"

text \<open>\<^verbatim>\<open>new BN(number)\<close> of bn.js on a JavaScript number that is an integer: the
  constructor takes the absolute value, asserts that it is below
  \<^verbatim>\<open>0x20000000000000\<close> (2 to the 53) and throws \<^verbatim>\<open>Error('Assertion failed')\<close>
  otherwise.\<close>

definition new_BN :: "int \<Rightarrow> TypedError + int" where
  "new_BN number =
     (if \<bar>number\<bar> < 2 ^ 53 then Inr number
      else Inl \<lparr>message = ''Assertion failed'', type = [], errContext = None\<rparr>)"

datatype Action =
    CreateAccount
  | DeployContract bytes
  | FunctionCallAction string bytes int int
  | Transfer int
  | Stake int PublicKey
  | AddKey PublicKey
  | DeleteKey PublicKey
  | DeleteAccount string

record Transaction =
  signerId :: string
  publicKey :: PublicKey
  nonce :: int
  receiverId :: string
  actions :: "Action list"
  blockHash :: bytes

record SignedTransaction =
  transaction :: Transaction
  signature :: bytes

record BlockHeader =
  hash :: string

record BlockResult =
  header :: BlockHeader

text \<open>A property that, when present and not \<^verbatim>\<open>null\<close>, holds an object:
  \<^verbatim>\<open>typeof\<close> is \<^verbatim>\<open>'undefined'\<close> on \<open>Undefined\<close> and \<^verbatim>\<open>'object'\<close> on both \<open>Null\<close> and
  \<open>Object\<close>.\<close>

datatype 'a js_prop = Undefined | Null | Object 'a

fun typeof_object :: "'a js_prop \<Rightarrow> bool" where
  "typeof_object Undefined = False"
| "typeof_object Null = True"
| "typeof_object (Object v) = True"

text \<open>The payload of a failure. \<^verbatim>\<open>error_message\<close> and \<^verbatim>\<open>error_type\<close> are the two
  properties of the old format, strings when present (\<open>None\<close>: the property is
  absent); \<open>detail\<close> stands for every other property, which only the error parsers
  read.\<close>

record ExecutionError =
  error_message :: "string option"
  error_type :: "string option"
  detail :: string

text \<open>\<^verbatim>\<open>ExecutionStatus | ExecutionStatusBasic\<close> (and the \<^verbatim>\<open>FinalExecutionStatus\<close>
  pair): a string such as \<^verbatim>\<open>'Unknown'\<close>, or an object with optional properties.
  Reading \<^verbatim>\<open>.Failure\<close> of a string gives \<^verbatim>\<open>undefined\<close>.\<close>

record StatusObject =
  SuccessValue :: "string option"
  SuccessReceiptId :: "string option"
  Failure :: "ExecutionError js_prop"

datatype ExecutionStatus =
    StatusBasic string
  | StatusObj StatusObject

fun status_is_object :: "ExecutionStatus \<Rightarrow> bool" where
  "status_is_object (StatusBasic b) = False"
| "status_is_object (StatusObj so) = True"

fun status_Failure :: "ExecutionStatus \<Rightarrow> ExecutionError js_prop" where
  "status_Failure (StatusBasic b) = Undefined"
| "status_Failure (StatusObj so) = Failure so"

record ExecutionOutcome =
  logs :: "string list"
  receipt_ids :: "string list"
  gas_burnt :: nat
  status :: ExecutionStatus

record ExecutionOutcomeWithId =
  outcome_id :: string
  outcome :: ExecutionOutcome

record FinalExecutionOutcome =
  status :: ExecutionStatus
  transaction_outcome :: ExecutionOutcomeWithId
  receipts_outcome :: "ExecutionOutcomeWithId list"

record ReceiptLogWithFailure =
  receiptIds :: "string list"
  logs :: "string list"
  failure :: "TypedError option"

record SignAndSendTransactionOptions =
  receiverId :: string
  actions :: "Action list"
  walletMeta :: "string option"
  walletCallbackUrl :: "string option"
  returnError :: "bool option"

subsection \<open>Collaborators\<close>

text \<open>An awaited call: from the cache and the outside world to a result (an error
  when the promise rejects) and the cache and the outside world as they are when the
  caller resumes.\<close>

type_synonym ('e, 'r) async = "cache \<Rightarrow> 'e \<Rightarrow> (TypedError + 'r) \<times> cache \<times> 'e"

record 'e Signer =
  getPublicKey :: "string \<Rightarrow> string \<Rightarrow> ('e, PublicKey option) async"
  signer_toString :: string

record 'e Provider =
  query_view_access_key :: "string \<Rightarrow> string \<Rightarrow> ('e, AccessKeyViewRaw) async"
  block_final :: "('e, BlockResult) async"
  sendTransaction :: "SignedTransaction \<Rightarrow> ('e, FinalExecutionOutcome) async"

record 'e Connection =
  networkId :: string
  provider :: "'e Provider"
  signer :: "'e Signer"

text \<open>What the module imports and reads from its environment: \<^verbatim>\<open>baseEncode\<close> and
  \<^verbatim>\<open>baseDecode\<close> of borsh, \<^verbatim>\<open>signTransaction\<close> of \<^verbatim>\<open>./transaction\<close>,
  \<^verbatim>\<open>parseRpcError\<close> and \<^verbatim>\<open>parseResultError\<close> of \<^verbatim>\<open>./utils/rpc_errors\<close>, the timer
  behind the backoff, the console, the variable \<^verbatim>\<open>NEAR_NO_LOGS\<close> of \<^verbatim>\<open>process.env\<close>
  (\<open>None\<close>: not set) and the string a \<^verbatim>\<open>ServerError\<close> gives in a template literal.
  None of them is part of the file: they are parameters. The two parsers may throw
  (\<open>Inl\<close>) as well as return an error object (\<open>Inr\<close>); \<^verbatim>\<open>parseRpcError\<close> is called
  with the value of a \<^verbatim>\<open>Failure\<close> property, an object or \<^verbatim>\<open>null\<close>.\<close>

record 'e Imports =
  baseEncode :: "bytes \<Rightarrow> string"
  baseDecode :: "string \<Rightarrow> bytes"
  transaction_signTransaction ::
    "string \<Rightarrow> int \<Rightarrow> Action list \<Rightarrow> bytes \<Rightarrow> 'e Signer \<Rightarrow> string \<Rightarrow> string
       \<Rightarrow> ('e, bytes \<times> SignedTransaction) async"
  parseRpcError :: "ExecutionError js_prop \<Rightarrow> TypedError + TypedError"
  parseResultError :: "FinalExecutionOutcome \<Rightarrow> TypedError + TypedError"
  sleep :: "rat \<Rightarrow> cache \<Rightarrow> 'e \<Rightarrow> cache \<times> 'e"
  console_log :: "string \<Rightarrow> 'e \<Rightarrow> 'e"
  console_warn :: "string \<Rightarrow> 'e \<Rightarrow> 'e"
  NEAR_NO_LOGS :: "string option"
  ServerError_toString :: "TypedError \<Rightarrow> string"

subsection \<open>The sender and its state\<close>

record 'e TransactionSender =
  connection :: "'e Connection"
  accountId :: string

record 'e state =
  accessKeyByPublicKeyCache :: cache
  outside :: 'e
  submitted :: "SignedTransaction list"

definition await :: "(cache \<Rightarrow> 'e \<Rightarrow> 'r \<times> cache \<times> 'e) \<Rightarrow> 'e state \<Rightarrow> 'r \<times> 'e state" where
  "await call s =
     (case call (accessKeyByPublicKeyCache s) (outside s) of
        (r, c, e) \<Rightarrow> (r, s\<lparr>accessKeyByPublicKeyCache := c, outside := e\<rparr>))"

subsection \<open>findAccessKey\<close>

text \<open>
  The \<^verbatim>\<open>catch\<close> block of \<^verbatim>\<open>findAccessKey\<close>: \<^verbatim>\<open>AccessKeyDoesNotExist\<close> becomes a
  \<^verbatim>\<open>null\<close> result, anything else is thrown again.
\<close>

definition findAccessKey_catch ::
  "TypedError \<Rightarrow> 'e state \<Rightarrow> (TypedError + (PublicKey \<times> AccessKeyView) option) \<times> 'e state" where
  "findAccessKey_catch e s =
     (if type e = ''AccessKeyDoesNotExist'' then (Inr None, s) else (Inl e, s))"

text \<open>
  The \<^verbatim>\<open>try\<close> block holds the query and \<^verbatim>\<open>new BN(rawAccessKey.nonce)\<close>, so what
  either throws goes through the \<^verbatim>\<open>catch\<close> block; the spread copies the permission.
  The first look at the cache compares with \<^verbatim>\<open>undefined\<close>, the second tests
  truthiness: an access key is an object, so both ask whether the entry exists. The
  cache is a plain object read by the string of the key; such a string has the form
  \<^verbatim>\<open>ed25519:...\<close> and names no inherited property, so the object is a map.
\<close>

definition findAccessKey ::
  "'e TransactionSender \<Rightarrow> string \<Rightarrow> Action list \<Rightarrow> 'e state
     \<Rightarrow> (TypedError + (PublicKey \<times> AccessKeyView) option) \<times> 'e state" where
  "findAccessKey this rid acts s =
     (case await (getPublicKey (signer (connection this)) (accountId this)
                    (networkId (connection this))) s of
        (Inl e, s1) \<Rightarrow> (Inl e, s1)
      | (Inr None, s1) \<Rightarrow>
          (Inl (new_TypedError
                  (''no matching key pair found in '' @ signer_toString (signer (connection this)))
                  ''PublicKeyNotFound''), s1)
      | (Inr (Some pk), s1) \<Rightarrow>
          (case accessKeyByPublicKeyCache s1 pk of
             Some cachedAccessKey \<Rightarrow> (Inr (Some (pk, cachedAccessKey)), s1)
           | None \<Rightarrow>
               (case await (query_view_access_key (provider (connection this))
                              (accountId this) pk) s1 of
                  (Inl e, s2) \<Rightarrow> findAccessKey_catch e s2
                | (Inr rawAccessKey, s2) \<Rightarrow>
                    (case new_BN (AccessKeyViewRaw.nonce rawAccessKey) of
                       Inl e \<Rightarrow> findAccessKey_catch e s2
                     | Inr bn \<Rightarrow>
                         (let accessKey = \<lparr>AccessKeyView.nonce = bn,
                                           permission = AccessKeyViewRaw.permission rawAccessKey\<rparr>
                          in case accessKeyByPublicKeyCache s2 pk of
                               Some existing \<Rightarrow> (Inr (Some (pk, existing)), s2)
                             | None \<Rightarrow>
                                 (Inr (Some (pk, accessKey)),
                                  s2\<lparr>accessKeyByPublicKeyCache :=
                                       (accessKeyByPublicKeyCache s2)(pk \<mapsto> accessKey)\<rparr>))))))"

subsection \<open>signTransaction\<close>

text \<open>\<^verbatim>\<open>accessKey.nonce.add(new BN(1))\<close> is the sum of two integers of any size.\<close>

definition signTransaction ::
  "'e Imports \<Rightarrow> 'e TransactionSender \<Rightarrow> string \<Rightarrow> Action list \<Rightarrow> 'e state
     \<Rightarrow> (TypedError + bytes \<times> SignedTransaction) \<times> 'e state" where
  "signTransaction imp this rid acts s =
     (case findAccessKey this rid acts s of
        (Inl e, s1) \<Rightarrow> (Inl e, s1)
      | (Inr None, s1) \<Rightarrow>
          (Inl (new_TypedError
                  (''Can not sign transactions for account '' @ accountId this
                   @ '' on network '' @ networkId (connection this)
                   @ '', no matching key pair exists for this account'')
                  ''KeyNotFound''), s1)
      | (Inr (Some (pk, ak)), s1) \<Rightarrow>
          (case await (block_final (provider (connection this))) s1 of
             (Inl e, s2) \<Rightarrow> (Inl e, s2)
           | (Inr blk, s2) \<Rightarrow>
               (let blockHash = hash (header blk);
                    n = AccessKeyView.nonce ak + 1
                in await (transaction_signTransaction imp rid n acts (baseDecode imp blockHash)
                            (signer (connection this)) (accountId this)
                            (networkId (connection this))) s2)))"

subsection \<open>The retry loop\<close>

definition TX_NONCE_RETRY_NUMBER :: nat where
  "TX_NONCE_RETRY_NUMBER = 12"

definition TX_NONCE_RETRY_WAIT :: rat where
  "TX_NONCE_RETRY_WAIT = 500"

definition TX_NONCE_RETRY_WAIT_BACKOFF :: rat where
  "TX_NONCE_RETRY_WAIT_BACKOFF = 3 / 2"

text \<open>Modelled from the spec: \<^verbatim>\<open>exponentialBackoff\<close> of \<^verbatim>\<open>./utils/exponential-backoff\<close>,
  which the sender imports and which is not among the sources. The spec describes a
  bounded loop of at most \<open>retryNumber\<close> attempts: an attempt that succeeds ends the
  loop with its result, an attempt that throws ends it with the error, and an attempt
  that signals a retry (a \<^verbatim>\<open>null\<close> result) is followed by the next one after a wait
  that starts at \<open>startWaitTime\<close> and is multiplied by \<open>waitBackoff\<close> each round; the
  wait is applied only between rounds. When no attempt is left the result is
  \<^verbatim>\<open>null\<close>, which the caller turns into \<^verbatim>\<open>RetriesExceeded\<close>.
\<close>

fun exponentialBackoff ::
  "'e Imports \<Rightarrow> rat \<Rightarrow> nat \<Rightarrow> rat \<Rightarrow> ('e state \<Rightarrow> (TypedError + 'r option) \<times> 'e state)
     \<Rightarrow> 'e state \<Rightarrow> (TypedError + 'r option) \<times> 'e state" where
  "exponentialBackoff imp waitTime 0 waitBackoff getResult s = (Inr None, s)"
| "exponentialBackoff imp waitTime (Suc n) waitBackoff getResult s =
     (case getResult s of
        (Inl e, s1) \<Rightarrow> (Inl e, s1)
      | (Inr (Some r), s1) \<Rightarrow> (Inr (Some r), s1)
      | (Inr None, s1) \<Rightarrow>
          if n = 0 then (Inr None, s1)
          else exponentialBackoff imp (waitTime * waitBackoff) n waitBackoff getResult
                 (snd (await (\<lambda>c e. ((), sleep imp waitTime c e)) s1)))"

text \<open>\<^verbatim>\<open>this.connection.provider.sendTransaction(signedTx)\<close>, recorded in \<open>submitted\<close>.\<close>

definition provider_sendTransaction ::
  "'e TransactionSender \<Rightarrow> SignedTransaction \<Rightarrow> 'e state
     \<Rightarrow> (TypedError + FinalExecutionOutcome) \<times> 'e state" where
  "provider_sendTransaction this signedTx s =
     (case await (sendTransaction (provider (connection this)) signedTx) s of
        (r, s') \<Rightarrow> (r, s'\<lparr>submitted := submitted s' @ [signedTx]\<rparr>))"

text \<open>The function passed to \<^verbatim>\<open>exponentialBackoff\<close>: one attempt. \<open>None\<close> is its
  \<^verbatim>\<open>null\<close>, the signal to retry. The attempt assigns \<^verbatim>\<open>txHash\<close> and \<^verbatim>\<open>signedTx\<close>,
  variables of the enclosing method; the method reads \<^verbatim>\<open>signedTx\<close> again only after
  an attempt has succeeded, so the successful attempt hands its \<open>signedTx\<close> over next
  to the result.\<close>

definition signAndSendTransaction_attempt ::
  "'e Imports \<Rightarrow> 'e TransactionSender \<Rightarrow> string \<Rightarrow> Action list \<Rightarrow> 'e state
     \<Rightarrow> (TypedError + (FinalExecutionOutcome \<times> SignedTransaction) option) \<times> 'e state" where
  "signAndSendTransaction_attempt imp this rid acts s =
     (case signTransaction imp this rid acts s of
        (Inl e, s1) \<Rightarrow> (Inl e, s1)
      | (Inr (txHash, signedTx), s1) \<Rightarrow>
          (let pk = publicKey (transaction signedTx)
           in case provider_sendTransaction this signedTx s1 of
                (Inr result, s2) \<Rightarrow> (Inr (Some (result, signedTx)), s2)
              | (Inl error, s2) \<Rightarrow>
                  if type error = ''InvalidNonce''
                  then (Inr None,
                        s2\<lparr>accessKeyByPublicKeyCache := (accessKeyByPublicKeyCache s2)(pk := None)\<rparr>)
                  else if type error = ''Expired'' then (Inr None, s2)
                  else (Inl (error\<lparr>errContext :=
                               Some \<lparr>transactionHash = baseEncode imp txHash\<rparr>\<rparr>), s2)))"

subsection \<open>The outcome\<close>

text \<open>The \<^verbatim>\<open>reduce\<close> that computes \<^verbatim>\<open>flatLogs\<close>, over the transaction outcome followed
  by the receipt outcomes. \<open>outcome_has_record\<close> is the condition of the callback,
  \<open>outcome_record\<close> the object it appends, with \<^verbatim>\<open>parseRpcError\<close> called when
  \<^verbatim>\<open>typeof Failure\<close> is not \<^verbatim>\<open>'undefined'\<close>, and \<open>flatLogs_step\<close> the callback. An
  error thrown by the parser ends the \<^verbatim>\<open>reduce\<close>.\<close>

definition outcome_has_record :: "ExecutionOutcomeWithId \<Rightarrow> bool" where
  "outcome_has_record it =
     (ExecutionOutcome.logs (outcome it) \<noteq> []
      \<or> (status_is_object (ExecutionOutcome.status (outcome it))
         \<and> typeof_object (status_Failure (ExecutionOutcome.status (outcome it)))))"

definition outcome_record ::
  "'e Imports \<Rightarrow> ExecutionOutcomeWithId \<Rightarrow> TypedError + ReceiptLogWithFailure" where
  "outcome_record imp it =
     (if status_Failure (ExecutionOutcome.status (outcome it)) \<noteq> Undefined
      then (case parseRpcError imp (status_Failure (ExecutionOutcome.status (outcome it))) of
              Inl e \<Rightarrow> Inl e
            | Inr f \<Rightarrow>
                Inr \<lparr>receiptIds = receipt_ids (outcome it),
                     logs = ExecutionOutcome.logs (outcome it),
                     failure = Some f\<rparr>)
      else Inr \<lparr>receiptIds = receipt_ids (outcome it),
                logs = ExecutionOutcome.logs (outcome it),
                failure = None\<rparr>)"

definition flatLogs_step ::
  "'e Imports \<Rightarrow> ReceiptLogWithFailure list \<Rightarrow> ExecutionOutcomeWithId
     \<Rightarrow> TypedError + ReceiptLogWithFailure list" where
  "flatLogs_step imp acc it =
     (if outcome_has_record it
      then (case outcome_record imp it of Inl e \<Rightarrow> Inl e | Inr r \<Rightarrow> Inr (acc @ [r]))
      else Inr acc)"

fun flatLogs_reduce ::
  "'e Imports \<Rightarrow> ReceiptLogWithFailure list \<Rightarrow> ExecutionOutcomeWithId list
     \<Rightarrow> TypedError + ReceiptLogWithFailure list" where
  "flatLogs_reduce imp acc [] = Inr acc"
| "flatLogs_reduce imp acc (it # its) =
     (case flatLogs_step imp acc it of
        Inl e \<Rightarrow> Inl e
      | Inr acc' \<Rightarrow> flatLogs_reduce imp acc' its)"

definition flatLogs ::
  "'e Imports \<Rightarrow> FinalExecutionOutcome \<Rightarrow> TypedError + ReceiptLogWithFailure list" where
  "flatLogs imp result =
     flatLogs_reduce imp [] (transaction_outcome result # receipts_outcome result)"

text \<open>Truthiness of an optional boolean and of an optional string.\<close>

fun truthy_bool :: "bool option \<Rightarrow> bool" where
  "truthy_bool None = False"
| "truthy_bool (Some b) = b"

fun truthy_string :: "string option \<Rightarrow> bool" where
  "truthy_string None = False"
| "truthy_string (Some str) = (str \<noteq> [])"

text \<open>\<^verbatim>\<open>Array.prototype.join\<close> on strings.\<close>

fun join :: "string \<Rightarrow> string list \<Rightarrow> string" where
  "join sep [] = []"
| "join sep [x] = x"
| "join sep (x # y # ys) = x @ sep @ join sep (y # ys)"

text \<open>\<^verbatim>\<open>printLogs\<close> and \<^verbatim>\<open>printLogsAndFailures\<close>, on the outside world: nothing when
  \<^verbatim>\<open>NEAR_NO_LOGS\<close> is set to a non-empty string, one line after the other otherwise.
  The prefix of the log lines and of the warning is a tab.\<close>

definition printLogs :: "'e Imports \<Rightarrow> string \<Rightarrow> string list \<Rightarrow> string \<Rightarrow> 'e \<Rightarrow> 'e" where
  "printLogs imp contractId ls prefix e =
     (if \<not> truthy_string (NEAR_NO_LOGS imp)
      then foldl (\<lambda>e' l. console_log imp (prefix @ ''Log ['' @ contractId @ '']: '' @ l) e') e ls
      else e)"

definition printLogsAndFailures_step ::
  "'e Imports \<Rightarrow> string \<Rightarrow> 'e \<Rightarrow> ReceiptLogWithFailure \<Rightarrow> 'e" where
  "printLogsAndFailures_step imp contractId e r =
     (let e1 = console_log imp
                 (''Receipt'' @ (if length (receiptIds r) > 1 then ''s'' else [])
                  @ '': '' @ join '', '' (receiptIds r)) e;
          e2 = printLogs imp contractId (ReceiptLogWithFailure.logs r) [CHR 0x09] e1
      in case failure r of
           Some f \<Rightarrow>
             console_warn imp
               ([CHR 0x09] @ ''Failure ['' @ contractId @ '']: '' @ ServerError_toString imp f) e2
         | None \<Rightarrow> e2)"

definition printLogsAndFailures ::
  "'e Imports \<Rightarrow> string \<Rightarrow> ReceiptLogWithFailure list \<Rightarrow> 'e \<Rightarrow> 'e" where
  "printLogsAndFailures imp contractId results e =
     (if \<not> truthy_string (NEAR_NO_LOGS imp)
      then foldl (printLogsAndFailures_step imp contractId) e results
      else e)"

text \<open>The error thrown for a failure payload \<open>f\<close>: the old format when both
  properties are truthy, otherwise what \<^verbatim>\<open>parseResultError\<close> returns, or what it
  throws.\<close>

definition failure_error ::
  "'e Imports \<Rightarrow> FinalExecutionOutcome \<Rightarrow> ExecutionError \<Rightarrow> TypedError" where
  "failure_error imp result f =
     (if truthy_string (error_message f) \<and> truthy_string (error_type f)
      then (case (error_message f, error_type f) of
              (Some m, Some t) \<Rightarrow>
                new_TypedError
                  (''Transaction '' @ outcome_id (transaction_outcome result)
                   @ '' failed. '' @ m) t
            | _ \<Rightarrow> (case parseResultError imp result of Inl e \<Rightarrow> e | Inr e \<Rightarrow> e))
      else (case parseResultError imp result of Inl e \<Rightarrow> e | Inr e \<Rightarrow> e))"

text \<open>The method after the loop has returned \<open>result\<close> and the signed transaction
  of the successful attempt: the flattening, the printing, the final decision.\<close>

definition signAndSendTransaction_outcome ::
  "'e Imports \<Rightarrow> SignAndSendTransactionOptions \<Rightarrow> FinalExecutionOutcome \<Rightarrow> SignedTransaction
     \<Rightarrow> 'e state \<Rightarrow> (TypedError + FinalExecutionOutcome) \<times> 'e state" where
  "signAndSendTransaction_outcome imp opts result signedTx s1 =
     (case flatLogs imp result of
        Inl e \<Rightarrow> (Inl e, s1)
      | Inr records \<Rightarrow>
          (let s2 = s1\<lparr>outside :=
                        printLogsAndFailures imp (Transaction.receiverId (transaction signedTx))
                          records (outside s1)\<rparr>
           in if \<not> truthy_bool (returnError opts)
                 \<and> status_is_object (FinalExecutionOutcome.status result)
                 \<and> typeof_object (status_Failure (FinalExecutionOutcome.status result))
                 \<and> status_Failure (FinalExecutionOutcome.status result) \<noteq> Null
              then (case status_Failure (FinalExecutionOutcome.status result) of
                      Object f \<Rightarrow> (Inl (failure_error imp result f), s2)
                    | _ \<Rightarrow> (Inr result, s2))
              else (Inr result, s2)))"

definition signAndSendTransaction ::
  "'e Imports \<Rightarrow> 'e TransactionSender \<Rightarrow> SignAndSendTransactionOptions \<Rightarrow> 'e state
     \<Rightarrow> (TypedError + FinalExecutionOutcome) \<times> 'e state" where
  "signAndSendTransaction imp this opts s =
     (case exponentialBackoff imp TX_NONCE_RETRY_WAIT TX_NONCE_RETRY_NUMBER
             TX_NONCE_RETRY_WAIT_BACKOFF
             (signAndSendTransaction_attempt imp this
                (SignAndSendTransactionOptions.receiverId opts)
                (SignAndSendTransactionOptions.actions opts)) s of
        (Inl e, s1) \<Rightarrow> (Inl e, s1)
      | (Inr None, s1) \<Rightarrow>
          (Inl (new_TypedError
                  ''nonce retries exceeded for transaction. This usually means there are too many parallel requests with the same access key.''
                  ''RetriesExceeded''), s1)
      | (Inr (Some (result, signedTx)), s1) \<Rightarrow>
          signAndSendTransaction_outcome imp opts result signedTx s1)"

text \<open>The retry loop as \<^verbatim>\<open>signAndSendTransaction\<close> calls it.\<close>

abbreviation retry_loop ::
  "'e Imports \<Rightarrow> 'e TransactionSender \<Rightarrow> SignAndSendTransactionOptions \<Rightarrow> 'e state
     \<Rightarrow> (TypedError + (FinalExecutionOutcome \<times> SignedTransaction) option) \<times> 'e state" where
  "retry_loop imp this opts s \<equiv>
     exponentialBackoff imp TX_NONCE_RETRY_WAIT TX_NONCE_RETRY_NUMBER TX_NONCE_RETRY_WAIT_BACKOFF
       (signAndSendTransaction_attempt imp this
          (SignAndSendTransactionOptions.receiverId opts)
          (SignAndSendTransactionOptions.actions opts)) s"

text \<open>A status that is an object whose \<^verbatim>\<open>Failure\<close> is an object other than
  \<^verbatim>\<open>null\<close>: the test of the final decision.\<close>

fun is_structured_failure :: "ExecutionStatus \<Rightarrow> bool" where
  "is_structured_failure (StatusBasic b) = False"
| "is_structured_failure (StatusObj so) = (case Failure so of Object f \<Rightarrow> True | _ \<Rightarrow> False)"

subsection \<open>Stub collaborators\<close>

text \<open>Concrete collaborators on which the theorems below are instantiated. The outside
  world of the stubs is a counter of the calls of \<^verbatim>\<open>sendTransaction\<close>; their console
  drops its lines.\<close>

definition stub_key :: PublicKey where
  "stub_key = ''ed25519:DcA2MzgpJbrUATQLLceocVckhhAqrkingax4oJ9kZ847''"

definition stub_signer :: "nat Signer" where
  "stub_signer =
     \<lparr>getPublicKey = (\<lambda>acc net c e. (Inr (Some stub_key), c, e)),
      signer_toString = ''InMemorySigner''\<rparr>"

definition stub_signer_no_key :: "nat Signer" where
  "stub_signer_no_key =
     \<lparr>getPublicKey = (\<lambda>acc net c e. (Inr None, c, e)),
      signer_toString = ''InMemorySigner''\<rparr>"

definition stub_raw_key :: AccessKeyViewRaw where
  "stub_raw_key = \<lparr>AccessKeyViewRaw.nonce = 7, permission = FullAccess\<rparr>"

definition stub_query_ok :: "string \<Rightarrow> string \<Rightarrow> (nat, AccessKeyViewRaw) async" where
  "stub_query_ok = (\<lambda>acc pk c e. (Inr stub_raw_key, c, e))"

text \<open>A query that reports the nonce \<open>n\<close>.\<close>

definition stub_query_nonce :: "int \<Rightarrow> string \<Rightarrow> string \<Rightarrow> (nat, AccessKeyViewRaw) async" where
  "stub_query_nonce n =
     (\<lambda>acc pk c e. (Inr \<lparr>AccessKeyViewRaw.nonce = n, permission = FullAccess\<rparr>, c, e))"

definition stub_query_error :: "string \<Rightarrow> string \<Rightarrow> string \<Rightarrow> (nat, AccessKeyViewRaw) async" where
  "stub_query_error ty = (\<lambda>acc pk c e. (Inl (new_TypedError ''query failed'' ty), c, e))"

text \<open>A query during which another resolution caches nonce 9 for the same key.\<close>

definition stub_query_racing :: "string \<Rightarrow> string \<Rightarrow> (nat, AccessKeyViewRaw) async" where
  "stub_query_racing =
     (\<lambda>acc pk c e. (Inr stub_raw_key,
                     c(pk \<mapsto> \<lparr>AccessKeyView.nonce = 9, permission = FullAccess\<rparr>), e))"

definition stub_send_error :: "string \<Rightarrow> SignedTransaction \<Rightarrow> (nat, FinalExecutionOutcome) async" where
  "stub_send_error ty = (\<lambda>tx c e. (Inl (new_TypedError ''rejected'' ty), c, Suc e))"

definition stub_send_ok ::
  "FinalExecutionOutcome \<Rightarrow> SignedTransaction \<Rightarrow> (nat, FinalExecutionOutcome) async" where
  "stub_send_ok result = (\<lambda>tx c e. (Inr result, c, Suc e))"

definition stub_provider ::
  "(string \<Rightarrow> string \<Rightarrow> (nat, AccessKeyViewRaw) async)
     \<Rightarrow> (SignedTransaction \<Rightarrow> (nat, FinalExecutionOutcome) async) \<Rightarrow> nat Provider" where
  "stub_provider qry send =
     \<lparr>query_view_access_key = qry,
      block_final =
        (\<lambda>c e. (Inr \<lparr>header = \<lparr>hash = ''9mdG2cRcV8Dsb1EoSjtya81NddjRB2stYCTVukZh7zzw''\<rparr>\<rparr>, c, e)),
      sendTransaction = send\<rparr>"

definition stub_sender ::
  "nat Signer \<Rightarrow> (string \<Rightarrow> string \<Rightarrow> (nat, AccessKeyViewRaw) async)
     \<Rightarrow> (SignedTransaction \<Rightarrow> (nat, FinalExecutionOutcome) async) \<Rightarrow> nat TransactionSender" where
  "stub_sender sg qry send =
     \<lparr>connection = \<lparr>networkId = ''testnet'', provider = stub_provider qry send, signer = sg\<rparr>,
      accountId = ''alice.testnet''\<rparr>"

text \<open>Two parsers for \<^verbatim>\<open>parseRpcError\<close>: one that returns an error object for
  whatever it is given, and one that throws a \<^verbatim>\<open>TypeError\<close> when it is given
  \<^verbatim>\<open>null\<close>, as a parser that reads properties of its argument does.\<close>

definition stub_parseRpcError :: "ExecutionError js_prop \<Rightarrow> TypedError + TypedError" where
  "stub_parseRpcError = (\<lambda>f. Inr (new_TypedError ''unparsed failure'' ''UntypedError''))"

definition stub_parseRpcError_strict :: "ExecutionError js_prop \<Rightarrow> TypedError + TypedError" where
  "stub_parseRpcError_strict =
     (\<lambda>f. case f of
             Object x \<Rightarrow> Inr (new_TypedError ''unparsed failure'' ''UntypedError'')
           | _ \<Rightarrow> Inl \<lparr>message = ''Cannot read properties of null'', type = [],
                        errContext = None\<rparr>)"

definition stub_parseResultError :: "FinalExecutionOutcome \<Rightarrow> TypedError + TypedError" where
  "stub_parseResultError = (\<lambda>r. Inr (new_TypedError ''unparsed result'' ''UntypedError''))"

definition stub_imports_with ::
  "(ExecutionError js_prop \<Rightarrow> TypedError + TypedError)
     \<Rightarrow> (FinalExecutionOutcome \<Rightarrow> TypedError + TypedError) \<Rightarrow> nat Imports" where
  "stub_imports_with rpc res =
     \<lparr>baseEncode = (\<lambda>b. ''h'' @ replicate (length b) CHR ''1''),
      baseDecode = (\<lambda>str. [of_nat (length str)]),
      transaction_signTransaction =
        (\<lambda>rid n acts bh sg acc net c e.
           (Inr ([1, 2, 3],
                 \<lparr>transaction = \<lparr>signerId = acc, publicKey = stub_key, nonce = n,
                                  Transaction.receiverId = rid, Transaction.actions = acts,
                                  blockHash = bh\<rparr>,
                  signature = [4, 5, 6]\<rparr>), c, e)),
      parseRpcError = rpc,
      parseResultError = res,
      sleep = (\<lambda>w c e. (c, e)),
      console_log = (\<lambda>line e. e),
      console_warn = (\<lambda>line e. e),
      NEAR_NO_LOGS = None,
      ServerError_toString = (\<lambda>f. ''Error: '' @ message f)\<rparr>"

definition stub_imports :: "nat Imports" where
  "stub_imports = stub_imports_with stub_parseRpcError stub_parseResultError"

definition stub_state :: "nat state" where
  "stub_state = \<lparr>accessKeyByPublicKeyCache = Map.empty, outside = 0, submitted = []\<rparr>"

definition stub_options :: SignAndSendTransactionOptions where
  "stub_options =
     \<lparr>receiverId = ''bob.testnet'', actions = [Transfer 1], walletMeta = None,
      walletCallbackUrl = None, returnError = None\<rparr>"

definition stub_status_ok :: ExecutionStatus where
  "stub_status_ok = StatusObj \<lparr>SuccessValue = Some [], SuccessReceiptId = None, Failure = Undefined\<rparr>"

definition stub_outcome :: "string \<Rightarrow> string list \<Rightarrow> ExecutionStatus \<Rightarrow> ExecutionOutcomeWithId" where
  "stub_outcome i ls st =
     \<lparr>outcome_id = i,
      outcome = \<lparr>ExecutionOutcome.logs = ls, receipt_ids = [i @ ''-next''], gas_burnt = 2428,
                 ExecutionOutcome.status = st\<rparr>\<rparr>"

text \<open>An outcome with top-level status \<open>st\<close>: a transaction outcome with logs
  \<^verbatim>\<open>["a"]\<close>, a receipt with logs \<^verbatim>\<open>["b"]\<close> and a receipt with no logs and status
  \<open>st2\<close>.\<close>

definition stub_result :: "ExecutionStatus \<Rightarrow> ExecutionStatus \<Rightarrow> FinalExecutionOutcome" where
  "stub_result st st2 =
     \<lparr>status = st,
      transaction_outcome = stub_outcome ''tx'' [''a''] stub_status_ok,
      receipts_outcome = [stub_outcome ''receipt1'' [''b''] stub_status_ok,
                          stub_outcome ''receipt2'' [] st2]\<rparr>"

text \<open>An outcome whose top-level status \<open>st\<close> mirrors the status of its transaction
  outcome, with one receipt that succeeded.\<close>

definition stub_result_mirror :: "ExecutionStatus \<Rightarrow> FinalExecutionOutcome" where
  "stub_result_mirror st =
     \<lparr>status = st,
      transaction_outcome = stub_outcome ''tx'' [''a''] st,
      receipts_outcome = [stub_outcome ''receipt1'' [''b''] stub_status_ok]\<rparr>"

definition stub_failure :: "string option \<Rightarrow> string option \<Rightarrow> ExecutionStatus" where
  "stub_failure m t =
     StatusObj \<lparr>SuccessValue = None, SuccessReceiptId = None,
                Failure = Object \<lparr>error_message = m, error_type = t, detail = []\<rparr>\<rparr>"

definition stub_failure_null :: ExecutionStatus where
  "stub_failure_null = StatusObj \<lparr>SuccessValue = None, SuccessReceiptId = None, Failure = Null\<rparr>"

text \<open>The transaction the stub signer returns for \<open>opts\<close> and the nonce \<open>n\<close>; with
  nonce 8, the one it returns on a cache that holds nonce 7. The state after the
  signing and the state after the submission, from \<open>stub_state\<close>.\<close>

definition stub_tx_nonce :: "int \<Rightarrow> SignAndSendTransactionOptions \<Rightarrow> SignedTransaction" where
  "stub_tx_nonce n opts =
     \<lparr>transaction =
        \<lparr>signerId = ''alice.testnet'', publicKey = stub_key, nonce = n,
         Transaction.receiverId = SignAndSendTransactionOptions.receiverId opts,
         Transaction.actions = SignAndSendTransactionOptions.actions opts,
         blockHash = [44]\<rparr>,
      signature = [4, 5, 6]\<rparr>"

definition stub_tx :: "SignAndSendTransactionOptions \<Rightarrow> SignedTransaction" where
  "stub_tx opts = stub_tx_nonce 8 opts"

text \<open>A state whose cache holds the nonce \<open>n\<close> for the key of the stub signer.\<close>

definition stub_state_cached :: "int \<Rightarrow> nat state" where
  "stub_state_cached n =
     \<lparr>accessKeyByPublicKeyCache =
        [stub_key \<mapsto> \<lparr>AccessKeyView.nonce = n, permission = FullAccess\<rparr>],
      outside = 0, submitted = []\<rparr>"

definition stub_state_signed :: "nat state" where
  "stub_state_signed =
     \<lparr>accessKeyByPublicKeyCache =
        [stub_key \<mapsto> \<lparr>AccessKeyView.nonce = 7, permission = FullAccess\<rparr>],
      outside = 0, submitted = []\<rparr>"

definition stub_state_sent :: "SignAndSendTransactionOptions \<Rightarrow> nat state" where
  "stub_state_sent opts =
     \<lparr>accessKeyByPublicKeyCache =
        [stub_key \<mapsto> \<lparr>AccessKeyView.nonce = 7, permission = FullAccess\<rparr>],
      outside = 1, submitted = [stub_tx opts]\<rparr>"

section \<open>Properties\<close>

subsection \<open>Auxiliary facts\<close>

lemmas stub_defs =
  stub_sender_def stub_provider_def stub_signer_def stub_signer_no_key_def stub_imports_def
  stub_imports_with_def stub_state_def stub_query_ok_def stub_query_nonce_def
  stub_query_error_def stub_query_racing_def stub_send_error_def stub_send_ok_def
  stub_raw_key_def stub_tx_def stub_tx_nonce_def stub_state_sent_def stub_state_signed_def
  stub_state_cached_def

text \<open>No collaborator and no method but the submission changes the record of
  submissions.\<close>

lemma await_submitted: "await call s = (r, s') \<Longrightarrow> submitted s' = submitted s"
  by (auto simp: await_def split: prod.splits)

lemma findAccessKey_submitted:
  "findAccessKey this rid acts s = (r, s') \<Longrightarrow> submitted s' = submitted s"
  unfolding findAccessKey_def findAccessKey_catch_def
  by (auto split: prod.splits sum.splits option.splits if_splits simp: Let_def
           dest!: await_submitted)

lemma signTransaction_submitted:
  "signTransaction imp this rid acts s = (r, s') \<Longrightarrow> submitted s' = submitted s"
  unfolding signTransaction_def
  by (auto split: prod.splits sum.splits option.splits simp: Let_def
           dest!: await_submitted findAccessKey_submitted)


text \<open>The loop ends at the first attempt that throws or succeeds.\<close>

lemma exponentialBackoff_throw:
  "0 < n \<Longrightarrow> getResult s = (Inl e, s')
     \<Longrightarrow> exponentialBackoff imp w n b getResult s = (Inl e, s')"
  by (cases n) auto

lemma exponentialBackoff_success:
  "0 < n \<Longrightarrow> getResult s = (Inr (Some r), s')
     \<Longrightarrow> exponentialBackoff imp w n b getResult s = (Inr (Some r), s')"
  by (cases n) auto

text \<open>When every attempt signals a retry and makes one submission, the loop makes
  \<open>n\<close> submissions and returns \<^verbatim>\<open>null\<close>.\<close>

lemma exponentialBackoff_all_retry:
  assumes "\<And>s. \<exists>s'. getResult s = (Inr None, s')
                     \<and> length (submitted s') = Suc (length (submitted s))"
  shows "\<exists>s'. exponentialBackoff imp w n b getResult s = (Inr None, s')
              \<and> length (submitted s') = length (submitted s) + n"
proof (induction n arbitrary: w s)
  case 0
  then show ?case by simp
next
  case (Suc n)
  obtain s1 where a: "getResult s = (Inr None, s1)"
      and l: "length (submitted s1) = Suc (length (submitted s))"
    using assms[of s] by blast
  show ?case
  proof (cases "n = 0")
    case True
    then show ?thesis using a l by simp
  next
    case False
    obtain s2 where sl: "await (\<lambda>c e. ((), sleep imp w c e)) s1 = ((), s2)"
      by (cases "await (\<lambda>c e. ((), sleep imp w c e)) s1") auto
    have l2: "length (submitted s2) = Suc (length (submitted s))"
      using await_submitted[OF sl] l by simp
    obtain s' where "exponentialBackoff imp (w * b) n b getResult s2 = (Inr None, s')"
        and "length (submitted s') = length (submitted s2) + n"
      using Suc.IH[of "w * b" s2] by blast
    then show ?thesis using a False sl l2 by simp
  qed
qed

text \<open>One attempt against collaborators that always let the signing succeed and
  always reject the submission with a retryable error.\<close>

lemma attempt_retry:
  assumes signer_ok: "\<And>c e. \<exists>pk c' e'.
             getPublicKey (signer (connection this)) (accountId this)
               (networkId (connection this)) c e = (Inr (Some pk), c', e')"
      and query_ok: "\<And>pk c e. \<exists>raw c' e'.
             query_view_access_key (provider (connection this)) (accountId this) pk c e
               = (Inr raw, c', e')
             \<and> \<bar>AccessKeyViewRaw.nonce raw\<bar> < 2 ^ 53"
      and block_ok: "\<And>c e. \<exists>blk c' e'.
             block_final (provider (connection this)) c e = (Inr blk, c', e')"
      and sign_ok: "\<And>n bh c e. \<exists>h tx c' e'.
             transaction_signTransaction imp rid n acts bh (signer (connection this))
               (accountId this) (networkId (connection this)) c e = (Inr (h, tx), c', e')"
      and send_fails: "\<And>tx c e. \<exists>err c' e'.
             sendTransaction (provider (connection this)) tx c e = (Inl err, c', e')
             \<and> (type err = ''InvalidNonce'' \<or> type err = ''Expired'')"
  shows "\<exists>s'. signAndSendTransaction_attempt imp this rid acts s = (Inr None, s')
              \<and> length (submitted s') = Suc (length (submitted s))"
proof -
  obtain pk s1 where g: "await (getPublicKey (signer (connection this)) (accountId this)
               (networkId (connection this))) s = (Inr (Some pk), s1)"
    using signer_ok[of "accessKeyByPublicKeyCache s" "outside s"]
    by (auto simp: await_def)
  have "\<exists>ak s2. findAccessKey this rid acts s = (Inr (Some (pk, ak)), s2)"
  proof (cases "accessKeyByPublicKeyCache s1 pk")
    case (Some ak)
    then show ?thesis using g by (simp add: findAccessKey_def)
  next
    case None
    obtain raw s2 where q: "await (query_view_access_key (provider (connection this))
                              (accountId this) pk) s1 = (Inr raw, s2)"
        and bn: "new_BN (AccessKeyViewRaw.nonce raw) = Inr (AccessKeyViewRaw.nonce raw)"
      using query_ok[of pk "accessKeyByPublicKeyCache s1" "outside s1"]
      by (auto simp: await_def new_BN_def)
    show ?thesis using g None q bn
      by (cases "accessKeyByPublicKeyCache s2 pk") (auto simp: findAccessKey_def Let_def)
  qed
  then obtain ak s2 where f: "findAccessKey this rid acts s = (Inr (Some (pk, ak)), s2)"
    by blast
  obtain blk s3 where b: "await (block_final (provider (connection this))) s2 = (Inr blk, s3)"
    using block_ok[of "accessKeyByPublicKeyCache s2" "outside s2"]
    by (auto simp: await_def)
  obtain h tx s4 where t: "await (transaction_signTransaction imp rid (AccessKeyView.nonce ak + 1)
           acts (baseDecode imp (hash (header blk))) (signer (connection this))
           (accountId this) (networkId (connection this))) s3 = (Inr (h, tx), s4)"
    using sign_ok[of "AccessKeyView.nonce ak + 1" "baseDecode imp (hash (header blk))"
                     "accessKeyByPublicKeyCache s3" "outside s3"]
    by (auto simp: await_def)
  have st: "signTransaction imp this rid acts s = (Inr (h, tx), s4)"
    using f b t by (simp add: signTransaction_def Let_def)
  obtain err s5 where sd: "provider_sendTransaction this tx s4 = (Inl err, s5)"
      and ty: "type err = ''InvalidNonce'' \<or> type err = ''Expired''"
    using send_fails[of tx "accessKeyByPublicKeyCache s4" "outside s4"]
    by (auto simp: provider_sendTransaction_def await_def)
  have sub: "submitted s5 = submitted s @ [tx]"
    using sd signTransaction_submitted[OF st]
    by (auto simp: provider_sendTransaction_def split: prod.splits dest!: await_submitted)
  show ?thesis
    using st sd ty sub
    by (auto simp: signAndSendTransaction_attempt_def Let_def)
qed

text \<open>After the loop has returned an outcome, the method is the flattening, the
  printing and the final decision.\<close>

lemma signAndSendTransaction_after_loop:
  "retry_loop imp this opts s = (Inr (Some (result, signedTx)), s1)
     \<Longrightarrow> signAndSendTransaction imp this opts s
         = signAndSendTransaction_outcome imp opts result signedTx s1"
  by (simp add: signAndSendTransaction_def)

text \<open>When the parser throws in the flattening, the method throws that error: nothing
  is printed, and neither \<^verbatim>\<open>returnError\<close> nor the status is read.\<close>

lemma signAndSendTransaction_outcome_flatLogs_throws:
  "flatLogs imp result = Inl e
     \<Longrightarrow> signAndSendTransaction_outcome imp opts result signedTx s1 = (Inl e, s1)"
  by (simp add: signAndSendTransaction_outcome_def)

text \<open>When the flattening returns its records, they are printed and the final
  decision is taken: the method throws exactly when \<^verbatim>\<open>returnError\<close> is unset or false
  and the status is an object whose \<^verbatim>\<open>Failure\<close> is an object other than \<^verbatim>\<open>null\<close>,
  and returns the outcome it was given otherwise.\<close>

lemma signAndSendTransaction_outcome_decision:
  assumes "flatLogs imp result = Inr records"
  shows "signAndSendTransaction_outcome imp opts result signedTx s1 =
           ((if \<not> truthy_bool (returnError opts)
                \<and> is_structured_failure (FinalExecutionOutcome.status result)
             then (case status_Failure (FinalExecutionOutcome.status result) of
                     Object f \<Rightarrow> Inl (failure_error imp result f)
                   | _ \<Rightarrow> Inr result)
             else Inr result),
            s1\<lparr>outside := printLogsAndFailures imp (Transaction.receiverId (transaction signedTx))
                             records (outside s1)\<rparr>)"
  using assms
  by (cases "FinalExecutionOutcome.status result")
     (auto simp: signAndSendTransaction_outcome_def Let_def split: js_prop.splits)

text \<open>The old format: a failure whose \<^verbatim>\<open>error_message\<close> and \<^verbatim>\<open>error_type\<close> are both
  present and not empty gives a \<^verbatim>\<open>TypedError\<close> of that type whose message ends with
  that message.\<close>

lemma failure_error_old_format:
  "error_message f = Some m \<Longrightarrow> error_type f = Some t \<Longrightarrow> m \<noteq> [] \<Longrightarrow> t \<noteq> []
     \<Longrightarrow> failure_error imp result f =
         \<lparr>message = ''Transaction '' @ outcome_id (transaction_outcome result)
                      @ '' failed. '' @ m,
          type = t, errContext = None\<rparr>"
  by (simp add: failure_error_def new_TypedError_def)

text \<open>The flattening keeps, in order, the outcomes that satisfy the condition of the
  callback, and maps each to its record, as long as the parser returns.\<close>

lemma flatLogs_reduce_returns:
  assumes "\<And>it. it \<in> set xs \<Longrightarrow> outcome_has_record it \<Longrightarrow> outcome_record imp it = Inr (rcd it)"
  shows "flatLogs_reduce imp acc xs = Inr (acc @ map rcd (filter outcome_has_record xs))"
  using assms
  by (induction xs arbitrary: acc) (simp_all add: flatLogs_step_def)

text \<open>The stubs, evaluated.\<close>

lemma stub_getPublicKey:
  "await (getPublicKey (signer (connection (stub_sender stub_signer qry send)))
            (accountId (stub_sender stub_signer qry send))
            (networkId (connection (stub_sender stub_signer qry send)))) s
   = (Inr (Some stub_key), s)"
  by (simp add: await_def stub_defs)


lemma stub_state_miss: "accessKeyByPublicKeyCache stub_state stub_key = None"
  by (simp add: stub_state_def)

lemma stub_query_error_await:
  "await (query_view_access_key
            (provider (connection (stub_sender stub_signer (stub_query_error ty) send)))
            (accountId (stub_sender stub_signer (stub_query_error ty) send)) stub_key) stub_state
   = (Inl \<lparr>message = ''query failed'', type = ty, errContext = None\<rparr>, stub_state)"
  by (simp add: await_def stub_defs new_TypedError_def)


lemma stub_signTransaction_with:
  "signTransaction (stub_imports_with rpc res) (stub_sender stub_signer stub_query_ok send)
     (SignAndSendTransactionOptions.receiverId opts)
     (SignAndSendTransactionOptions.actions opts) stub_state
   = (Inr ([1, 2, 3], stub_tx opts), stub_state_signed)"
  by (simp add: signTransaction_def findAccessKey_def new_BN_def await_def stub_defs Let_def)

lemma stub_signTransaction:
  "signTransaction stub_imports (stub_sender stub_signer stub_query_ok send)
     (SignAndSendTransactionOptions.receiverId opts)
     (SignAndSendTransactionOptions.actions opts) stub_state
   = (Inr ([1, 2, 3], stub_tx opts), stub_state_signed)"
  unfolding stub_imports_def by (rule stub_signTransaction_with)

lemma stub_provider_sendTransaction_error:
  "provider_sendTransaction (stub_sender stub_signer stub_query_ok (stub_send_error ty))
     (stub_tx opts) stub_state_signed
   = (Inl \<lparr>message = ''rejected'', type = ty, errContext = None\<rparr>, stub_state_sent opts)"
  by (simp add: provider_sendTransaction_def await_def stub_defs new_TypedError_def)

lemma stub_attempt_ok:
  "signAndSendTransaction_attempt (stub_imports_with rpc res)
     (stub_sender stub_signer stub_query_ok (stub_send_ok result))
     (SignAndSendTransactionOptions.receiverId opts)
     (SignAndSendTransactionOptions.actions opts) stub_state
   = (Inr (Some (result, stub_tx opts)), stub_state_sent opts)"
  by (simp add: signAndSendTransaction_attempt_def stub_signTransaction_with Let_def)
     (simp add: provider_sendTransaction_def await_def stub_defs)

lemma stub_retry_loop_ok:
  "retry_loop (stub_imports_with rpc res)
     (stub_sender stub_signer stub_query_ok (stub_send_ok result)) opts stub_state
   = (Inr (Some (result, stub_tx opts)), stub_state_sent opts)"
  by (rule exponentialBackoff_success) (simp_all add: TX_NONCE_RETRY_NUMBER_def stub_attempt_ok)

lemma foldl_unchanged: "(\<And>a x. f a x = a) \<Longrightarrow> foldl f a xs = a"
  by (induction xs) simp_all

lemma stub_printLogsAndFailures:
  "printLogsAndFailures (stub_imports_with rpc res) contractId records e = e"
proof -
  have l: "\<And>ls p a. printLogs (stub_imports_with rpc res) contractId ls p a = a"
    by (simp add: printLogs_def stub_imports_with_def foldl_unchanged)
  have "\<And>a r. printLogsAndFailures_step (stub_imports_with rpc res) contractId a r = a"
    by (simp add: printLogsAndFailures_step_def l Let_def split: option.splits)
       (simp add: stub_imports_with_def)
  then show ?thesis
    by (simp add: printLogsAndFailures_def foldl_unchanged)
qed

text \<open>On the stubs, the method after a submission that succeeded at once.\<close>

lemma stub_signAndSendTransaction:
  "signAndSendTransaction (stub_imports_with rpc res)
     (stub_sender stub_signer stub_query_ok (stub_send_ok result)) opts stub_state
   = signAndSendTransaction_outcome (stub_imports_with rpc res) opts result (stub_tx opts)
       (stub_state_sent opts)"
  by (rule signAndSendTransaction_after_loop) (rule stub_retry_loop_ok)

lemma stub_sleep: "await (\<lambda>c e. ((), sleep stub_imports w c e)) s = ((), s)"
  by (simp add: await_def stub_defs)

lemma stub_attempt_invalid_nonce:
  "signAndSendTransaction_attempt stub_imports
     (stub_sender stub_signer stub_query_ok (stub_send_error ''InvalidNonce''))
     (SignAndSendTransactionOptions.receiverId stub_options)
     (SignAndSendTransactionOptions.actions stub_options)
     \<lparr>accessKeyByPublicKeyCache = Map.empty, outside = k, submitted = txs\<rparr>
   = (Inr None,
      \<lparr>accessKeyByPublicKeyCache = Map.empty, outside = Suc k,
       submitted = txs @ [stub_tx stub_options]\<rparr>)"
  by (simp add: signAndSendTransaction_attempt_def signTransaction_def findAccessKey_def
        new_BN_def provider_sendTransaction_def await_def stub_defs Let_def new_TypedError_def)

lemma stub_loop_invalid_nonce:
  "exponentialBackoff stub_imports w n b
     (signAndSendTransaction_attempt stub_imports
        (stub_sender stub_signer stub_query_ok (stub_send_error ''InvalidNonce''))
        (SignAndSendTransactionOptions.receiverId stub_options)
        (SignAndSendTransactionOptions.actions stub_options))
     \<lparr>accessKeyByPublicKeyCache = Map.empty, outside = k, submitted = txs\<rparr>
   = (Inr None,
      \<lparr>accessKeyByPublicKeyCache = Map.empty, outside = k + n,
       submitted = txs @ replicate n (stub_tx stub_options)\<rparr>)"
proof (induction n arbitrary: w k txs)
  case 0
  then show ?case by simp
next
  case (Suc n)
  show ?case
    by (simp add: stub_attempt_invalid_nonce Suc.IH stub_sleep replicate_app_Cons_same)
qed

lemma stub_run_invalid_nonce:
  "signAndSendTransaction stub_imports
     (stub_sender stub_signer stub_query_ok (stub_send_error ''InvalidNonce''))
     stub_options stub_state
   = (Inl \<lparr>message = ''nonce retries exceeded for transaction. This usually means there are too many parallel requests with the same access key.'',
           type = ''RetriesExceeded'', errContext = None\<rparr>,
      \<lparr>accessKeyByPublicKeyCache = Map.empty, outside = 12,
       submitted = replicate 12 (stub_tx stub_options)\<rparr>)"
  by (simp add: signAndSendTransaction_def stub_state_def stub_loop_invalid_nonce
                TX_NONCE_RETRY_NUMBER_def new_TypedError_def)

text \<open>The example of the spec: logs \<^verbatim>\<open>["a"]\<close> on the transaction, \<^verbatim>\<open>["b"]\<close> on
  the first receipt, and a second receipt with no logs and no \<^verbatim>\<open>Failure\<close> property
  give the two records of the first two, in that order, whatever the parsers are.\<close>

lemma flatLogs_example:
  "flatLogs (stub_imports_with rpc res) (stub_result st stub_status_ok)
   = Inr [\<lparr>receiptIds = [''tx-next''], logs = [''a''], failure = None\<rparr>,
          \<lparr>receiptIds = [''receipt1-next''], logs = [''b''], failure = None\<rparr>]"
  by (simp add: flatLogs_def flatLogs_step_def stub_result_def stub_outcome_def
                stub_status_ok_def outcome_has_record_def outcome_record_def)

subsection \<open>The retry loop\<close>

text \<open>
  Claim C1. When the collaborators let the signing succeed at every attempt (the
  signer has a key, the provider answers the queries, with a nonce that \<^verbatim>\<open>BN\<close>
  accepts, and the block requests, the imported signer signs) and every submission is
  rejected with a retryable error (\<^verbatim>\<open>InvalidNonce\<close> or \<^verbatim>\<open>Expired\<close>),
  \<^verbatim>\<open>signAndSendTransaction\<close> submits exactly \<open>TX_NONCE_RETRY_NUMBER\<close> = 12 times and
  then throws a \<^verbatim>\<open>TypedError\<close> of type \<^verbatim>\<open>RetriesExceeded\<close> whose message says that
  there are usually too many parallel requests with the same access key.
\<close>

theorem signAndSendTransaction_RetriesExceeded:
  assumes signer_ok: "\<And>c e. \<exists>pk c' e'.
             getPublicKey (signer (connection this)) (accountId this)
               (networkId (connection this)) c e = (Inr (Some pk), c', e')"
      and query_ok: "\<And>pk c e. \<exists>raw c' e'.
             query_view_access_key (provider (connection this)) (accountId this) pk c e
               = (Inr raw, c', e')
             \<and> \<bar>AccessKeyViewRaw.nonce raw\<bar> < 2 ^ 53"
      and block_ok: "\<And>c e. \<exists>blk c' e'.
             block_final (provider (connection this)) c e = (Inr blk, c', e')"
      and sign_ok: "\<And>n bh c e. \<exists>h tx c' e'.
             transaction_signTransaction imp (SignAndSendTransactionOptions.receiverId opts) n
               (SignAndSendTransactionOptions.actions opts) bh (signer (connection this))
               (accountId this) (networkId (connection this)) c e = (Inr (h, tx), c', e')"
      and send_fails: "\<And>tx c e. \<exists>err c' e'.
             sendTransaction (provider (connection this)) tx c e = (Inl err, c', e')
             \<and> (type err = ''InvalidNonce'' \<or> type err = ''Expired'')"
  shows "\<exists>s'. signAndSendTransaction imp this opts s =
                (Inl \<lparr>message = ''nonce retries exceeded for transaction. This usually means there are too many parallel requests with the same access key.'',
                      type = ''RetriesExceeded'', errContext = None\<rparr>, s')
              \<and> length (submitted s') = length (submitted s) + TX_NONCE_RETRY_NUMBER
              \<and> TX_NONCE_RETRY_NUMBER = 12"
proof -
  have "\<exists>s'. retry_loop imp this opts s = (Inr None, s')
             \<and> length (submitted s') = length (submitted s) + TX_NONCE_RETRY_NUMBER"
    by (rule exponentialBackoff_all_retry) (rule attempt_retry[OF assms])
  then show ?thesis
    by (auto simp: signAndSendTransaction_def new_TypedError_def TX_NONCE_RETRY_NUMBER_def)
qed

text \<open>On a submission stub that always answers \<^verbatim>\<open>InvalidNonce\<close> and counts its
  calls: twelve calls, twelve submissions, then \<^verbatim>\<open>RetriesExceeded\<close>.\<close>

theorem signAndSendTransaction_RetriesExceeded_witness:
  "signAndSendTransaction stub_imports
     (stub_sender stub_signer stub_query_ok (stub_send_error ''InvalidNonce''))
     stub_options stub_state
   = (Inl \<lparr>message = ''nonce retries exceeded for transaction. This usually means there are too many parallel requests with the same access key.'',
           type = ''RetriesExceeded'', errContext = None\<rparr>,
      \<lparr>accessKeyByPublicKeyCache = Map.empty, outside = 12,
       submitted = replicate 12 (stub_tx stub_options)\<rparr>)
   \<and> length (submitted (snd (signAndSendTransaction stub_imports
         (stub_sender stub_signer stub_query_ok (stub_send_error ''InvalidNonce''))
         stub_options stub_state))) = 12"
proof -
  let ?snd = "stub_sender stub_signer stub_query_ok (stub_send_error ''InvalidNonce'')"
  have 1: "\<And>c e. \<exists>pk c' e'.
             getPublicKey (signer (connection ?snd)) (accountId ?snd)
               (networkId (connection ?snd)) c e = (Inr (Some pk), c', e')"
    by (simp add: stub_defs)
  have 2: "\<And>pk c e. \<exists>raw c' e'.
             query_view_access_key (provider (connection ?snd)) (accountId ?snd) pk c e
               = (Inr raw, c', e')
             \<and> \<bar>AccessKeyViewRaw.nonce raw\<bar> < 2 ^ 53"
    by (simp add: stub_defs)
  have 3: "\<And>c e. \<exists>blk c' e'.
             block_final (provider (connection ?snd)) c e = (Inr blk, c', e')"
    by (simp add: stub_defs)
  have 4: "\<And>n bh c e. \<exists>h tx c' e'.
             transaction_signTransaction stub_imports
               (SignAndSendTransactionOptions.receiverId stub_options) n
               (SignAndSendTransactionOptions.actions stub_options) bh (signer (connection ?snd))
               (accountId ?snd) (networkId (connection ?snd)) c e = (Inr (h, tx), c', e')"
    by (simp add: stub_defs)
  have 5: "\<And>tx c e. \<exists>err c' e'.
             sendTransaction (provider (connection ?snd)) tx c e = (Inl err, c', e')
             \<and> (type err = ''InvalidNonce'' \<or> type err = ''Expired'')"
    by (simp add: stub_defs new_TypedError_def)
  have "\<exists>s'. signAndSendTransaction stub_imports ?snd stub_options stub_state =
           (Inl \<lparr>message = ''nonce retries exceeded for transaction. This usually means there are too many parallel requests with the same access key.'',
                 type = ''RetriesExceeded'', errContext = None\<rparr>, s')
         \<and> length (submitted s') = 12"
    using signAndSendTransaction_RetriesExceeded
            [where this = ?snd and imp = stub_imports and opts = stub_options
               and s = stub_state, OF 1 2 3 4 5]
    by (auto simp: stub_state_def)
  then show ?thesis
    using stub_run_invalid_nonce by auto
qed

text \<open>
  Claim C2. In an attempt whose signing gave \<open>(txHash, signedTx)\<close> and whose
  submission threw \<open>error\<close>: type \<^verbatim>\<open>InvalidNonce\<close> deletes the cache entry of the
  public key of the signed transaction and signals a retry; type \<^verbatim>\<open>Expired\<close>
  signals a retry and leaves the state as the submission left it; any other error is
  thrown with \<^verbatim>\<open>context\<close> set to the base-encoded \<open>txHash\<close>, and
  \<^verbatim>\<open>signAndSendTransaction\<close> throws it after that single submission.
\<close>

theorem attempt_failure_classification:
  assumes "signTransaction imp this (SignAndSendTransactionOptions.receiverId opts)
             (SignAndSendTransactionOptions.actions opts) s = (Inr (txHash, signedTx), s1)"
      and "provider_sendTransaction this signedTx s1 = (Inl error, s2)"
  shows "(type error = ''InvalidNonce'' \<longrightarrow>
            signAndSendTransaction_attempt imp this (SignAndSendTransactionOptions.receiverId opts)
              (SignAndSendTransactionOptions.actions opts) s
            = (Inr None, s2\<lparr>accessKeyByPublicKeyCache :=
                              (accessKeyByPublicKeyCache s2)
                                (publicKey (transaction signedTx) := None)\<rparr>))
       \<and> (type error = ''Expired'' \<longrightarrow>
            signAndSendTransaction_attempt imp this (SignAndSendTransactionOptions.receiverId opts)
              (SignAndSendTransactionOptions.actions opts) s
            = (Inr None, s2))
       \<and> (type error \<noteq> ''InvalidNonce'' \<and> type error \<noteq> ''Expired'' \<longrightarrow>
            signAndSendTransaction_attempt imp this (SignAndSendTransactionOptions.receiverId opts)
              (SignAndSendTransactionOptions.actions opts) s
            = (Inl (error\<lparr>errContext := Some \<lparr>transactionHash = baseEncode imp txHash\<rparr>\<rparr>), s2)
          \<and> signAndSendTransaction imp this opts s
            = (Inl (error\<lparr>errContext := Some \<lparr>transactionHash = baseEncode imp txHash\<rparr>\<rparr>), s2)
          \<and> submitted s2 = submitted s @ [signedTx])"
proof -
  have sub: "submitted s2 = submitted s @ [signedTx]"
    using assms(2) signTransaction_submitted[OF assms(1)]
    by (auto simp: provider_sendTransaction_def split: prod.splits dest!: await_submitted)
  have a: "type error \<noteq> ''InvalidNonce'' \<Longrightarrow> type error \<noteq> ''Expired'' \<Longrightarrow>
           signAndSendTransaction_attempt imp this (SignAndSendTransactionOptions.receiverId opts)
             (SignAndSendTransactionOptions.actions opts) s
           = (Inl (error\<lparr>errContext := Some \<lparr>transactionHash = baseEncode imp txHash\<rparr>\<rparr>), s2)"
    using assms by (simp add: signAndSendTransaction_attempt_def Let_def)
  have l: "type error \<noteq> ''InvalidNonce'' \<Longrightarrow> type error \<noteq> ''Expired'' \<Longrightarrow>
           retry_loop imp this opts s
           = (Inl (error\<lparr>errContext := Some \<lparr>transactionHash = baseEncode imp txHash\<rparr>\<rparr>), s2)"
    by (rule exponentialBackoff_throw) (simp_all add: TX_NONCE_RETRY_NUMBER_def a)
  show ?thesis
    using assms sub a l
    by (auto simp: signAndSendTransaction_attempt_def signAndSendTransaction_def Let_def)
qed

text \<open>On submission stubs that answer \<^verbatim>\<open>InvalidNonce\<close>, \<^verbatim>\<open>Expired\<close> and
  \<^verbatim>\<open>Timeout\<close>: the entry is gone, the entry is kept, the error comes back with the
  hash.\<close>

theorem attempt_failure_classification_witness:
  "signAndSendTransaction_attempt stub_imports
     (stub_sender stub_signer stub_query_ok (stub_send_error ''InvalidNonce''))
     (SignAndSendTransactionOptions.receiverId stub_options)
     (SignAndSendTransactionOptions.actions stub_options) stub_state
   = (Inr None,
      \<lparr>accessKeyByPublicKeyCache = Map.empty, outside = 1, submitted = [stub_tx stub_options]\<rparr>)
   \<and> signAndSendTransaction_attempt stub_imports
     (stub_sender stub_signer stub_query_ok (stub_send_error ''Expired''))
     (SignAndSendTransactionOptions.receiverId stub_options)
     (SignAndSendTransactionOptions.actions stub_options) stub_state
   = (Inr None, stub_state_sent stub_options)
   \<and> signAndSendTransaction stub_imports
     (stub_sender stub_signer stub_query_ok (stub_send_error ''Timeout''))
     stub_options stub_state
   = (Inl \<lparr>message = ''rejected'', type = ''Timeout'',
           errContext = Some \<lparr>transactionHash = ''h111''\<rparr>\<rparr>,
      stub_state_sent stub_options)"
proof -
  have a: "signAndSendTransaction_attempt stub_imports
     (stub_sender stub_signer stub_query_ok (stub_send_error ''InvalidNonce''))
     (SignAndSendTransactionOptions.receiverId stub_options)
     (SignAndSendTransactionOptions.actions stub_options) stub_state
   = (Inr None,
      \<lparr>accessKeyByPublicKeyCache = Map.empty, outside = 1, submitted = [stub_tx stub_options]\<rparr>)"
    using attempt_failure_classification
            [OF stub_signTransaction
                  [where opts = stub_options and send = "stub_send_error ''InvalidNonce''"]
                stub_provider_sendTransaction_error
                  [where opts = stub_options and ty = "''InvalidNonce''"]]
    by (simp add: stub_state_sent_def stub_tx_def stub_tx_nonce_def)
  have b: "signAndSendTransaction_attempt stub_imports
     (stub_sender stub_signer stub_query_ok (stub_send_error ''Expired''))
     (SignAndSendTransactionOptions.receiverId stub_options)
     (SignAndSendTransactionOptions.actions stub_options) stub_state
   = (Inr None, stub_state_sent stub_options)"
    using attempt_failure_classification
            [OF stub_signTransaction
                  [where opts = stub_options and send = "stub_send_error ''Expired''"]
                stub_provider_sendTransaction_error
                  [where opts = stub_options and ty = "''Expired''"]]
    by simp
  have c: "signAndSendTransaction stub_imports
     (stub_sender stub_signer stub_query_ok (stub_send_error ''Timeout''))
     stub_options stub_state
   = (Inl \<lparr>message = ''rejected'', type = ''Timeout'',
           errContext = Some \<lparr>transactionHash = ''h111''\<rparr>\<rparr>,
      stub_state_sent stub_options)"
    using attempt_failure_classification
            [OF stub_signTransaction
                  [where opts = stub_options and send = "stub_send_error ''Timeout''"]
                stub_provider_sendTransaction_error
                  [where opts = stub_options and ty = "''Timeout''"]]
    by (simp add: stub_imports_def stub_imports_with_def)
  from a b c show ?thesis by simp
qed

subsection \<open>Signing\<close>



subsection \<open>Resolving the access key\<close>



text \<open>
  Claim C5, as the code has it. When the signer yields no public key for the account
  and the network, \<^verbatim>\<open>findAccessKey\<close> throws a \<^verbatim>\<open>TypedError\<close> of type
  \<^verbatim>\<open>PublicKeyNotFound\<close>.
\<close>

theorem findAccessKey_PublicKeyNotFound:
  assumes "await (getPublicKey (signer (connection this)) (accountId this)
                    (networkId (connection this))) s = (Inr None, s1)"
  shows "findAccessKey this rid acts s =
           (Inl \<lparr>message = ''no matching key pair found in ''
                             @ signer_toString (signer (connection this)),
                 type = ''PublicKeyNotFound'', errContext = None\<rparr>, s1)"
  using assms by (simp add: findAccessKey_def new_TypedError_def)

theorem findAccessKey_PublicKeyNotFound_witness:
  "findAccessKey (stub_sender stub_signer_no_key stub_query_ok (stub_send_error ''InvalidNonce''))
     ''alice.testnet'' [] stub_state
   = (Inl \<lparr>message = ''no matching key pair found in InMemorySigner'',
           type = ''PublicKeyNotFound'', errContext = None\<rparr>, stub_state)"
proof -
  have g: "await (getPublicKey
                    (signer (connection (stub_sender stub_signer_no_key stub_query_ok
                                           (stub_send_error ''InvalidNonce''))))
                    (accountId (stub_sender stub_signer_no_key stub_query_ok
                                  (stub_send_error ''InvalidNonce'')))
                    (networkId (connection (stub_sender stub_signer_no_key stub_query_ok
                                              (stub_send_error ''InvalidNonce''))))) stub_state
           = (Inr None, stub_state)"
    by (simp add: await_def stub_defs)
  show ?thesis
    using findAccessKey_PublicKeyNotFound[OF g, where rid = "''alice.testnet''" and acts = "[]"]
    by (simp add: stub_defs)
qed

text \<open>Claim C5 as stated fails: with a signer that has no key the type of the error is
  \<^verbatim>\<open>PublicKeyNotFound\<close>, not \<^verbatim>\<open>KeyNotFound\<close>.\<close>

theorem findAccessKey_no_public_key_counterexample:
  "findAccessKey (stub_sender stub_signer_no_key stub_query_ok (stub_send_error ''InvalidNonce''))
     ''bob.testnet'' [Transfer 1] stub_state
   = (Inl \<lparr>message = ''no matching key pair found in InMemorySigner'',
           type = ''PublicKeyNotFound'', errContext = None\<rparr>, stub_state)
   \<and> type \<lparr>message = ''no matching key pair found in InMemorySigner'',
           type = ''PublicKeyNotFound'', errContext = None\<rparr> \<noteq> ''KeyNotFound''"
  by (simp add: findAccessKey_def await_def stub_defs new_TypedError_def)

text \<open>
  Claim C6. When the resolution misses the cache and the query throws \<open>e\<close>: if the
  type of \<open>e\<close> is \<^verbatim>\<open>AccessKeyDoesNotExist\<close>, \<^verbatim>\<open>findAccessKey\<close> returns \<^verbatim>\<open>null\<close> and
  \<^verbatim>\<open>signTransaction\<close> throws a \<^verbatim>\<open>TypedError\<close> of type \<^verbatim>\<open>KeyNotFound\<close>; otherwise
  both throw \<open>e\<close> itself.
\<close>

theorem findAccessKey_AccessKeyDoesNotExist:
  assumes "await (getPublicKey (signer (connection this)) (accountId this)
                    (networkId (connection this))) s = (Inr (Some pk), s1)"
      and "accessKeyByPublicKeyCache s1 pk = None"
      and "await (query_view_access_key (provider (connection this)) (accountId this) pk) s1
             = (Inl e, s2)"
  shows "(type e = ''AccessKeyDoesNotExist'' \<longrightarrow>
            findAccessKey this rid acts s = (Inr None, s2)
          \<and> signTransaction imp this rid acts s =
              (Inl \<lparr>message = ''Can not sign transactions for account '' @ accountId this
                       @ '' on network '' @ networkId (connection this)
                       @ '', no matching key pair exists for this account'',
                     type = ''KeyNotFound'', errContext = None\<rparr>, s2))
       \<and> (type e \<noteq> ''AccessKeyDoesNotExist'' \<longrightarrow>
            findAccessKey this rid acts s = (Inl e, s2)
          \<and> signTransaction imp this rid acts s = (Inl e, s2))"
  using assms
  by (simp add: findAccessKey_def findAccessKey_catch_def signTransaction_def
                new_TypedError_def)

theorem findAccessKey_AccessKeyDoesNotExist_witness:
  "findAccessKey
     (stub_sender stub_signer (stub_query_error ''AccessKeyDoesNotExist'')
        (stub_send_error ''InvalidNonce''))
     ''bob.testnet'' [Transfer 1] stub_state
   = (Inr None, stub_state)
   \<and> signTransaction stub_imports
     (stub_sender stub_signer (stub_query_error ''AccessKeyDoesNotExist'')
        (stub_send_error ''InvalidNonce''))
     ''bob.testnet'' [Transfer 1] stub_state
   = (Inl \<lparr>message = ''Can not sign transactions for account alice.testnet on network testnet, no matching key pair exists for this account'',
           type = ''KeyNotFound'', errContext = None\<rparr>, stub_state)
   \<and> findAccessKey
     (stub_sender stub_signer (stub_query_error ''UnknownAccount'')
        (stub_send_error ''InvalidNonce''))
     ''bob.testnet'' [Transfer 1] stub_state
   = (Inl \<lparr>message = ''query failed'', type = ''UnknownAccount'', errContext = None\<rparr>,
      stub_state)"
  using findAccessKey_AccessKeyDoesNotExist
          [OF stub_getPublicKey stub_state_miss
              stub_query_error_await
                [where ty = "''AccessKeyDoesNotExist''"
                   and send = "stub_send_error ''InvalidNonce''"],
           where rid = "''bob.testnet''" and acts = "[Transfer 1]" and imp = stub_imports]
        findAccessKey_AccessKeyDoesNotExist
          [OF stub_getPublicKey stub_state_miss
              stub_query_error_await
                [where ty = "''UnknownAccount''"
                   and send = "stub_send_error ''InvalidNonce''"],
           where rid = "''bob.testnet''" and acts = "[Transfer 1]" and imp = stub_imports]
  by (simp add: stub_sender_def)

subsection \<open>The outcome\<close>

text \<open>
  Claim C7, at the input where the code departs from it. A receipt outcome with no
  logs whose status is \<^verbatim>\<open>{Failure: null}\<close> carries no failure, yet the condition of
  the callback holds for it, since \<^verbatim>\<open>typeof null\<close> is \<^verbatim>\<open>'object'\<close> and there is no
  test against \<^verbatim>\<open>null\<close>, unlike the final decision of the same method. The
  callback then calls \<^verbatim>\<open>parseRpcError\<close> with \<^verbatim>\<open>null\<close>: when the parser throws, the
  flattening throws that error; when it returns an error object, the receipt gets a
  third record with that object as its failure. In neither case does the flattening
  give the two records of the claim.
\<close>

theorem flatLogs_null_failure_record:
  "flatLogs (stub_imports_with rpc res) (stub_result stub_status_ok stub_failure_null)
   = (case rpc Null of
        Inl e \<Rightarrow> Inl e
      | Inr f \<Rightarrow>
          Inr [\<lparr>receiptIds = [''tx-next''], logs = [''a''], failure = None\<rparr>,
               \<lparr>receiptIds = [''receipt1-next''], logs = [''b''], failure = None\<rparr>,
               \<lparr>receiptIds = [''receipt2-next''], logs = [], failure = Some f\<rparr>])"
  by (simp add: flatLogs_def flatLogs_step_def stub_result_def stub_outcome_def
                stub_status_ok_def stub_failure_null_def outcome_has_record_def
                outcome_record_def stub_imports_with_def split: sum.splits)

text \<open>With the parser that accepts \<^verbatim>\<open>null\<close>, three records; with the parser that
  reads its argument, a \<^verbatim>\<open>TypeError\<close>.\<close>

theorem flatLogs_null_failure_record_witness:
  "flatLogs stub_imports (stub_result stub_status_ok stub_failure_null)
   = Inr [\<lparr>receiptIds = [''tx-next''], logs = [''a''], failure = None\<rparr>,
          \<lparr>receiptIds = [''receipt1-next''], logs = [''b''], failure = None\<rparr>,
          \<lparr>receiptIds = [''receipt2-next''], logs = [],
           failure = Some \<lparr>message = ''unparsed failure'', type = ''UntypedError'',
                            errContext = None\<rparr>\<rparr>]
   \<and> flatLogs (stub_imports_with stub_parseRpcError_strict stub_parseResultError)
       (stub_result stub_status_ok stub_failure_null)
   = Inl \<lparr>message = ''Cannot read properties of null'', type = [], errContext = None\<rparr>
   \<and> outcome_has_record (stub_outcome ''receipt2'' [] stub_failure_null)
   \<and> ExecutionOutcome.logs (outcome (stub_outcome ''receipt2'' [] stub_failure_null)) = []"
  using flatLogs_null_failure_record[where rpc = stub_parseRpcError and res = stub_parseResultError]
        flatLogs_null_failure_record
          [where rpc = stub_parseRpcError_strict and res = stub_parseResultError]
  by (simp add: stub_imports_def stub_parseRpcError_def stub_parseRpcError_strict_def
                new_TypedError_def outcome_has_record_def stub_outcome_def
                stub_failure_null_def)

text \<open>
  Claim C8, at the input where the code departs from it. The status of the outcome is
  a failure that carries both \<^verbatim>\<open>error_message\<close>, the empty string, and
  \<^verbatim>\<open>error_type\<close>, \<^verbatim>\<open>GuestPanic\<close>; no outcome of the tree has a \<^verbatim>\<open>Failure\<close> property
  and \<^verbatim>\<open>returnError\<close> is unset. The test of the old format is a test of truthiness
  and the empty string is falsy, so \<^verbatim>\<open>signAndSendTransaction\<close> throws what
  \<^verbatim>\<open>parseResultError\<close> returns or throws, not a \<^verbatim>\<open>TypedError\<close> of type
  \<^verbatim>\<open>GuestPanic\<close>.
\<close>

theorem signAndSendTransaction_empty_error_message:
  "signAndSendTransaction (stub_imports_with rpc res)
     (stub_sender stub_signer stub_query_ok
        (stub_send_ok (stub_result (stub_failure (Some []) (Some ''GuestPanic'')) stub_status_ok)))
     stub_options stub_state
   = (Inl (case res (stub_result (stub_failure (Some []) (Some ''GuestPanic'')) stub_status_ok) of
             Inl e \<Rightarrow> e
           | Inr e \<Rightarrow> e),
      stub_state_sent stub_options)"
  by (simp add: stub_signAndSendTransaction
                signAndSendTransaction_outcome_decision[OF flatLogs_example]
                stub_printLogsAndFailures)
     (simp add: stub_result_def stub_failure_def stub_options_def failure_error_def
                stub_imports_with_def)

text \<open>With a parser that answers \<^verbatim>\<open>UntypedError\<close> the error thrown has that type;
  with the message \<^verbatim>\<open>boom\<close> in place of the empty one the same parsers are not
  asked and the error has type \<^verbatim>\<open>GuestPanic\<close>.\<close>

theorem signAndSendTransaction_empty_error_message_witness:
  "signAndSendTransaction stub_imports
     (stub_sender stub_signer stub_query_ok
        (stub_send_ok (stub_result (stub_failure (Some []) (Some ''GuestPanic'')) stub_status_ok)))
     stub_options stub_state
   = (Inl \<lparr>message = ''unparsed result'', type = ''UntypedError'', errContext = None\<rparr>,
      stub_state_sent stub_options)
   \<and> type \<lparr>message = ''unparsed result'', type = ''UntypedError'', errContext = None\<rparr>
       \<noteq> ''GuestPanic''
   \<and> signAndSendTransaction stub_imports
     (stub_sender stub_signer stub_query_ok
        (stub_send_ok (stub_result (stub_failure (Some ''boom'') (Some ''GuestPanic''))
                         stub_status_ok)))
     stub_options stub_state
   = (Inl \<lparr>message = ''Transaction tx failed. boom'', type = ''GuestPanic'', errContext = None\<rparr>,
      stub_state_sent stub_options)"
proof -
  have a: "signAndSendTransaction stub_imports
     (stub_sender stub_signer stub_query_ok
        (stub_send_ok (stub_result (stub_failure (Some []) (Some ''GuestPanic'')) stub_status_ok)))
     stub_options stub_state
   = (Inl \<lparr>message = ''unparsed result'', type = ''UntypedError'', errContext = None\<rparr>,
      stub_state_sent stub_options)"
    using signAndSendTransaction_empty_error_message
            [where rpc = stub_parseRpcError and res = stub_parseResultError]
    by (simp add: stub_imports_def stub_parseResultError_def new_TypedError_def)
  have b: "signAndSendTransaction stub_imports
     (stub_sender stub_signer stub_query_ok
        (stub_send_ok (stub_result (stub_failure (Some ''boom'') (Some ''GuestPanic''))
                         stub_status_ok)))
     stub_options stub_state
   = (Inl \<lparr>message = ''Transaction tx failed. boom'', type = ''GuestPanic'', errContext = None\<rparr>,
      stub_state_sent stub_options)"
    unfolding stub_imports_def
    by (simp add: stub_signAndSendTransaction
                  signAndSendTransaction_outcome_decision[OF flatLogs_example]
                  stub_printLogsAndFailures)
       (simp add: stub_result_def stub_failure_def stub_options_def stub_outcome_def
                  failure_error_def new_TypedError_def)
  from a b show ?thesis by simp
qed

text \<open>
  Claim C9, at the input where the code departs from it. \<^verbatim>\<open>returnError\<close> is true, the
  status of the outcome is a failure, and the second receipt has no logs and status
  \<^verbatim>\<open>{Failure: null}\<close>. The flattening runs before \<^verbatim>\<open>returnError\<close> is read and calls
  \<^verbatim>\<open>parseRpcError\<close> with \<^verbatim>\<open>null\<close>: when the parser throws, \<^verbatim>\<open>signAndSendTransaction\<close>
  throws that error instead of returning the outcome; it returns the outcome only when
  the parser accepts \<^verbatim>\<open>null\<close>.
\<close>

theorem signAndSendTransaction_returnError_null_receipt:
  "signAndSendTransaction (stub_imports_with rpc res)
     (stub_sender stub_signer stub_query_ok
        (stub_send_ok (stub_result (stub_failure (Some ''boom'') (Some ''GuestPanic''))
                         stub_failure_null)))
     (stub_options\<lparr>returnError := Some True\<rparr>) stub_state
   = ((case rpc Null of
         Inl e \<Rightarrow> Inl e
       | Inr f \<Rightarrow> Inr (stub_result (stub_failure (Some ''boom'') (Some ''GuestPanic''))
                        stub_failure_null)),
      stub_state_sent stub_options)"
proof -
  have t: "stub_state_sent (stub_options\<lparr>returnError := Some True\<rparr>) = stub_state_sent stub_options"
    by (simp add: stub_state_sent_def stub_tx_def stub_tx_nonce_def)
  show ?thesis
  proof (cases "rpc Null")
    case (Inl e)
    then have "flatLogs (stub_imports_with rpc res)
                 (stub_result (stub_failure (Some ''boom'') (Some ''GuestPanic''))
                    stub_failure_null) = Inl e"
      by (simp add: flatLogs_def flatLogs_step_def stub_result_def stub_outcome_def
                    stub_status_ok_def stub_failure_null_def outcome_has_record_def
                    outcome_record_def stub_imports_with_def)
    then show ?thesis
      using Inl
      by (simp add: stub_signAndSendTransaction signAndSendTransaction_outcome_flatLogs_throws t)
  next
    case (Inr f)
    then have "flatLogs (stub_imports_with rpc res)
                 (stub_result (stub_failure (Some ''boom'') (Some ''GuestPanic''))
                    stub_failure_null)
               = Inr [\<lparr>receiptIds = [''tx-next''], logs = [''a''], failure = None\<rparr>,
                      \<lparr>receiptIds = [''receipt1-next''], logs = [''b''], failure = None\<rparr>,
                      \<lparr>receiptIds = [''receipt2-next''], logs = [], failure = Some f\<rparr>]"
      by (simp add: flatLogs_def flatLogs_step_def stub_result_def stub_outcome_def
                    stub_status_ok_def stub_failure_null_def outcome_has_record_def
                    outcome_record_def stub_imports_with_def)
    then show ?thesis
      using Inr
      by (simp add: stub_signAndSendTransaction signAndSendTransaction_outcome_decision
                    stub_printLogsAndFailures t)
  qed
qed

text \<open>With the parser that reads its argument the method throws the \<^verbatim>\<open>TypeError\<close>;
  with the parser that accepts \<^verbatim>\<open>null\<close>, and on a tree without \<^verbatim>\<open>Failure: null\<close>,
  it returns the outcome.\<close>

theorem signAndSendTransaction_returnError_null_receipt_witness:
  "signAndSendTransaction (stub_imports_with stub_parseRpcError_strict stub_parseResultError)
     (stub_sender stub_signer stub_query_ok
        (stub_send_ok (stub_result (stub_failure (Some ''boom'') (Some ''GuestPanic''))
                         stub_failure_null)))
     (stub_options\<lparr>returnError := Some True\<rparr>) stub_state
   = (Inl \<lparr>message = ''Cannot read properties of null'', type = [], errContext = None\<rparr>,
      stub_state_sent stub_options)
   \<and> signAndSendTransaction (stub_imports_with stub_parseRpcError stub_parseResultError)
     (stub_sender stub_signer stub_query_ok
        (stub_send_ok (stub_result (stub_failure (Some ''boom'') (Some ''GuestPanic''))
                         stub_failure_null)))
     (stub_options\<lparr>returnError := Some True\<rparr>) stub_state
   = (Inr (stub_result (stub_failure (Some ''boom'') (Some ''GuestPanic'')) stub_failure_null),
      stub_state_sent stub_options)"
  using signAndSendTransaction_returnError_null_receipt
          [where rpc = stub_parseRpcError_strict and res = stub_parseResultError]
        signAndSendTransaction_returnError_null_receipt
          [where rpc = stub_parseRpcError and res = stub_parseResultError]
  by (simp add: stub_parseRpcError_strict_def stub_parseRpcError_def)

text \<open>
  Claim C10, at the input where the code departs from it. The status of the outcome
  is \<^verbatim>\<open>{Failure: null}\<close> and, as the top-level status mirrors it, so is the status of
  the transaction outcome; \<^verbatim>\<open>returnError\<close> is unset. The final decision would return
  the outcome, but the flattening runs first and calls \<^verbatim>\<open>parseRpcError\<close> with
  \<^verbatim>\<open>null\<close>: when the parser throws, \<^verbatim>\<open>signAndSendTransaction\<close> throws that error; it
  returns the outcome only when the parser accepts \<^verbatim>\<open>null\<close>.
\<close>

theorem signAndSendTransaction_null_failure_mirrored:
  "signAndSendTransaction (stub_imports_with rpc res)
     (stub_sender stub_signer stub_query_ok (stub_send_ok (stub_result_mirror stub_failure_null)))
     stub_options stub_state
   = ((case rpc Null of
         Inl e \<Rightarrow> Inl e
       | Inr f \<Rightarrow> Inr (stub_result_mirror stub_failure_null)),
      stub_state_sent stub_options)"
proof (cases "rpc Null")
  case (Inl e)
  then have "flatLogs (stub_imports_with rpc res) (stub_result_mirror stub_failure_null) = Inl e"
    by (simp add: flatLogs_def flatLogs_step_def stub_result_mirror_def stub_outcome_def
                  stub_failure_null_def outcome_has_record_def outcome_record_def
                  stub_imports_with_def)
  then show ?thesis
    using Inl
    by (simp add: stub_signAndSendTransaction signAndSendTransaction_outcome_flatLogs_throws)
next
  case (Inr f)
  then have "flatLogs (stub_imports_with rpc res) (stub_result_mirror stub_failure_null)
             = Inr [\<lparr>receiptIds = [''tx-next''], logs = [''a''], failure = Some f\<rparr>,
                    \<lparr>receiptIds = [''receipt1-next''], logs = [''b''], failure = None\<rparr>]"
    by (simp add: flatLogs_def flatLogs_step_def stub_result_mirror_def stub_outcome_def
                  stub_status_ok_def stub_failure_null_def outcome_has_record_def
                  outcome_record_def stub_imports_with_def)
  then show ?thesis
    using Inr
    by (simp add: stub_signAndSendTransaction signAndSendTransaction_outcome_decision
                  stub_printLogsAndFailures)
       (simp add: stub_result_mirror_def stub_failure_null_def)
qed

text \<open>With the parser that reads its argument the method throws the \<^verbatim>\<open>TypeError\<close>;
  with the parser that accepts \<^verbatim>\<open>null\<close> it returns the outcome, and so it does with
  either parser when only the top-level status is \<^verbatim>\<open>{Failure: null}\<close>.\<close>

theorem signAndSendTransaction_null_failure_mirrored_witness:
  "signAndSendTransaction (stub_imports_with stub_parseRpcError_strict stub_parseResultError)
     (stub_sender stub_signer stub_query_ok (stub_send_ok (stub_result_mirror stub_failure_null)))
     stub_options stub_state
   = (Inl \<lparr>message = ''Cannot read properties of null'', type = [], errContext = None\<rparr>,
      stub_state_sent stub_options)
   \<and> signAndSendTransaction (stub_imports_with stub_parseRpcError stub_parseResultError)
     (stub_sender stub_signer stub_query_ok (stub_send_ok (stub_result_mirror stub_failure_null)))
     stub_options stub_state
   = (Inr (stub_result_mirror stub_failure_null), stub_state_sent stub_options)
   \<and> signAndSendTransaction (stub_imports_with stub_parseRpcError_strict stub_parseResultError)
     (stub_sender stub_signer stub_query_ok
        (stub_send_ok (stub_result stub_failure_null stub_status_ok)))
     stub_options stub_state
   = (Inr (stub_result stub_failure_null stub_status_ok), stub_state_sent stub_options)"
proof -
  have c: "signAndSendTransaction
             (stub_imports_with stub_parseRpcError_strict stub_parseResultError)
             (stub_sender stub_signer stub_query_ok
                (stub_send_ok (stub_result stub_failure_null stub_status_ok)))
             stub_options stub_state
           = (Inr (stub_result stub_failure_null stub_status_ok), stub_state_sent stub_options)"
    by (simp add: stub_signAndSendTransaction
                  signAndSendTransaction_outcome_decision[OF flatLogs_example]
                  stub_printLogsAndFailures)
       (simp add: stub_result_def stub_failure_null_def)
  show ?thesis
    using signAndSendTransaction_null_failure_mirrored
            [where rpc = stub_parseRpcError_strict and res = stub_parseResultError]
          signAndSendTransaction_null_failure_mirrored
            [where rpc = stub_parseRpcError and res = stub_parseResultError]
          c
    by (simp add: stub_parseRpcError_strict_def stub_parseRpcError_def)
qed

end
